theory Spec2Isabelle
  imports Main "HOL-Library.AList"
begin

section \<open>JavaScript values used by the services\<close>

text \<open>
  Exceptions of the source are values: a function that can let one escape returns
  \<open>js_error + 'a\<close>. Where the source catches the exception itself, the catch branch is
  a branch of the definition.
\<close>

datatype js_error = SyntaxError | TypeError

text \<open>
  The value \<open>JSON.parse\<close> builds from a payload. An object is the list of its own
  properties in property order. No operation of this layer reads a number of a payload.
\<close>

datatype json =
    JNull
  | JBool bool
  | JNum int
  | JStr string
  | JArr "json list"
  | JObj "(string \<times> json) list"

text \<open>The decimal text of an array index, as a property key.\<close>

function index_key :: "nat \<Rightarrow> string" where
  "index_key n =
     (if n < 10 then [''0123456789'' ! n]
      else index_key (n div 10) @ [''0123456789'' ! (n mod 10)])"
  by pat_completeness auto
termination
  by (relation "measure (\<lambda>n. n)") auto

declare index_key.simps [simp del]

text \<open>
  The own enumerable properties that the object spread \<open>{ ...parsed }\<close> copies: the
  fields of an object, the indexed elements of an array, the indexed characters of a
  string, and nothing for a number, a boolean or null.
\<close>

fun spread :: "json \<Rightarrow> (string \<times> json) list" where
  "spread (JObj props) = props"
| "spread (JArr xs) = zip (map index_key [0..<length xs]) xs"
| "spread (JStr s) = zip (map index_key [0..<length s]) (map (\<lambda>c. JStr [c]) s)"
| "spread v = []"

text \<open>Property read \<open>obj.name\<close> on an object literal.\<close>

fun field :: "string \<Rightarrow> json \<Rightarrow> json option" where
  "field name (JObj props) = map_of props name"
| "field name v = None"

section \<open>SharedWebSocketService\<close>

definition LEADER_KEY :: string where
  "LEADER_KEY = ''exim-ws-leader''"

definition LEADER_TIMEOUT :: int where
  "LEADER_TIMEOUT = 5000"

definition VISIBILITY_FAILOVER_MS :: int where
  "VISIBILITY_FAILOVER_MS = 3000"

datatype readyState = CONNECTING | OPEN | CLOSING | CLOSED

text \<open>
  The messages of the BroadcastChannel, one constructor per \<open>type\<close>:
  \<open>LEADER_ELECTED tabId\<close>, \<open>REGISTER_THREAD threadId originTabId\<close>,
  \<open>UNREGISTER_THREAD threadId originTabId\<close>, \<open>SEND_MESSAGE threadId message originTabId\<close>
  and \<open>MESSAGE_RECEIVED threadId message originTabId\<close>.
\<close>

datatype broadcast =
    LEADER_ELECTED string
  | REGISTER_THREAD string string
  | UNREGISTER_THREAD string string
  | SEND_MESSAGE string string string
  | MESSAGE_RECEIVED string json string

text \<open>
  The instance state of the service, with the parts of the browser it acts on:
  \<open>socket\<close> is \<open>None\<close> for \<open>null\<close> and otherwise the \<open>readyState\<close> of the WebSocket;
  a timer field says whether the timeout is pending; \<open>localStorage\<close> is the shared
  store; \<open>channel\<close> lists the messages posted to the BroadcastChannel, \<open>sent\<close> the
  frames handed to \<open>socket.send\<close>, \<open>notified\<close> the calls made to the subscribers, each
  in order. \<open>detached\<close> holds the WebSocket objects that \<open>this.socket\<close> no longer refers to,
  each by its \<open>readyState\<close>: their handlers stay installed and still run on the service.
\<close>

record ws_service =
  tabId :: string
  isLeader :: bool
  socket :: "readyState option"
  connectTimer :: bool
  disconnectTimer :: bool
  messageQueue :: "string list"
  activeThreads :: "string set"
  heartbeatInterval :: bool
  localStorage :: "string \<Rightarrow> string option"
  channel :: "broadcast list"
  sent :: "string list"
  notified :: "(string \<times> json) list"
  detached :: "readyState list"

text \<open>
  \<open>JSON.parse\<close> and \<open>JSON.stringify\<close> belong to the platform and are parameters of the
  functions that call them. A parser returns \<open>None\<close> where \<open>JSON.parse\<close> throws. The
  ownership record \<open>{tabId, timestamp}\<close> is the pair the source destructures, with a
  string and a number as the service writes them: a stored text is either rejected by
  the parser or a record of this shape.
\<close>

type_synonym leader_parse = "string \<Rightarrow> (string \<times> int) option"
type_synonym leader_stringify = "string \<times> int \<Rightarrow> string"
type_synonym payload_parse = "string \<Rightarrow> json option"
type_synonym frame_stringify = "json \<Rightarrow> string"

definition updateLeaderHeartbeat :: "leader_stringify \<Rightarrow> int \<Rightarrow> ws_service \<Rightarrow> ws_service" where
  "updateLeaderHeartbeat stringify now s =
     s\<lparr>localStorage := (localStorage s)(LEADER_KEY \<mapsto> stringify (tabId s, now))\<rparr>"

definition scheduleConnect :: "ws_service \<Rightarrow> ws_service" where
  "scheduleConnect s =
     (let s1 = (if disconnectTimer s then s\<lparr>disconnectTimer := False\<rparr> else s)
      in if socket s1 = Some OPEN \<or> socket s1 = Some CONNECTING then s1
         else s1\<lparr>connectTimer := True\<rparr>)"

definition scheduleDisconnect :: "ws_service \<Rightarrow> ws_service" where
  "scheduleDisconnect s =
     (let s1 = (if connectTimer s then s\<lparr>connectTimer := False\<rparr> else s)
      in s1\<lparr>disconnectTimer := True\<rparr>)"

definition becomeLeader :: "leader_stringify \<Rightarrow> int \<Rightarrow> ws_service \<Rightarrow> ws_service" where
  "becomeLeader stringify now s =
     (let s1 = s\<lparr>isLeader := True\<rparr>;
          s2 = updateLeaderHeartbeat stringify now s1;
          s3 = s2\<lparr>heartbeatInterval := True\<rparr>;
          s4 = s3\<lparr>channel := channel s3 @ [LEADER_ELECTED (tabId s3)]\<rparr>
      in if activeThreads s4 \<noteq> {} then scheduleConnect s4 else s4)"

definition attemptLeaderElection ::
  "leader_parse \<Rightarrow> leader_stringify \<Rightarrow> int \<Rightarrow> ws_service \<Rightarrow> js_error + ws_service" where
  "attemptLeaderElection parse stringify now s =
     (case localStorage s LEADER_KEY of
        None \<Rightarrow> Inr (becomeLeader stringify now s)
      | Some leaderData \<Rightarrow>
          if leaderData = [] then Inr (becomeLeader stringify now s)
          else (case parse leaderData of
                  None \<Rightarrow> Inl SyntaxError
                | Some (tabId', timestamp) \<Rightarrow>
                    if now - timestamp < LEADER_TIMEOUT \<and> tabId' \<noteq> tabId s
                    then Inr (s\<lparr>isLeader := False\<rparr>)
                    else Inr (becomeLeader stringify now s)))"

text \<open>
  The constructor: the fields as it initialises them, for the tab id it generated and
  the shared store it finds, and then the first election.
\<close>

definition initial_service :: "string \<Rightarrow> (string \<Rightarrow> string option) \<Rightarrow> ws_service" where
  "initial_service tab store =
     \<lparr>tabId = tab, isLeader = False, socket = None, connectTimer = False,
      disconnectTimer = False, messageQueue = [], activeThreads = {},
      heartbeatInterval = False, localStorage = store, channel = [], sent = [],
      notified = [], detached = []\<rparr>"

definition construct ::
  "leader_parse \<Rightarrow> leader_stringify \<Rightarrow> int \<Rightarrow> string \<Rightarrow> (string \<Rightarrow> string option)
     \<Rightarrow> js_error + ws_service" where
  "construct parse stringify now tab store =
     attemptLeaderElection parse stringify now (initial_service tab store)"

definition resignAsLeader :: "ws_service \<Rightarrow> ws_service" where
  "resignAsLeader s =
     (if \<not> isLeader s then s
      else s\<lparr>isLeader := False, heartbeatInterval := False\<rparr>)"

text \<open>The storage event carries \<open>key\<close> and \<open>newValue\<close>, each possibly \<open>null\<close>.\<close>

definition handleStorageChange ::
  "leader_parse \<Rightarrow> leader_stringify \<Rightarrow> int \<Rightarrow> string option \<Rightarrow> string option
     \<Rightarrow> ws_service \<Rightarrow> js_error + ws_service" where
  "handleStorageChange parse stringify now key newValue s =
     (if key \<noteq> Some LEADER_KEY then Inr s
      else (case newValue of
              None \<Rightarrow> attemptLeaderElection parse stringify now s
            | Some v \<Rightarrow>
                if v = [] then attemptLeaderElection parse stringify now s
                else (case parse v of
                        None \<Rightarrow> Inl SyntaxError
                      | Some (tabId', timestamp) \<Rightarrow>
                          if tabId' \<noteq> tabId s \<and> isLeader s then Inr (resignAsLeader s)
                          else Inr s)))"

definition attemptAggressiveLeaderElection ::
  "leader_parse \<Rightarrow> leader_stringify \<Rightarrow> int \<Rightarrow> ws_service \<Rightarrow> js_error + ws_service" where
  "attemptAggressiveLeaderElection parse stringify now s =
     (case localStorage s LEADER_KEY of
        None \<Rightarrow> Inr (becomeLeader stringify now s)
      | Some leaderData \<Rightarrow>
          if leaderData = [] then Inr (becomeLeader stringify now s)
          else (case parse leaderData of
                  None \<Rightarrow> Inl SyntaxError
                | Some (tabId', timestamp) \<Rightarrow>
                    if now - timestamp > VISIBILITY_FAILOVER_MS \<and> tabId' \<noteq> tabId s
                    then Inr (becomeLeader stringify now s)
                    else Inr s))"

text \<open>The \<open>visibilitychange\<close> handler; \<open>hidden\<close> is \<open>document.hidden\<close> when it runs.\<close>

definition handleVisibilityChange ::
  "leader_parse \<Rightarrow> leader_stringify \<Rightarrow> int \<Rightarrow> bool \<Rightarrow> ws_service \<Rightarrow> js_error + ws_service" where
  "handleVisibilityChange parse stringify now hidden s =
     (if hidden then Inr s
      else if isLeader s then Inr (updateLeaderHeartbeat stringify now s)
      else attemptAggressiveLeaderElection parse stringify now s)"

text \<open>
  The frame \<open>_sendViaWebSocket\<close> builds: the parsed payload with \<open>threadId\<close> set, or,
  in the catch branch, the plain text wrapped with the \<open>threadId\<close>.
\<close>

definition frame_of :: "payload_parse \<Rightarrow> string \<Rightarrow> string \<Rightarrow> json" where
  "frame_of parse threadId payload =
     (case parse payload of
        Some parsed \<Rightarrow> JObj (AList.update ''threadId'' (JStr threadId) (spread parsed))
      | None \<Rightarrow> JObj [(''threadId'', JStr threadId), (''content'', JStr payload)])"

definition sendViaWebSocket ::
  "payload_parse \<Rightarrow> frame_stringify \<Rightarrow> string \<Rightarrow> string \<Rightarrow> ws_service \<Rightarrow> bool \<times> ws_service" where
  "sendViaWebSocket parse stringify threadId payload s =
     (if \<not> isLeader s then (False, s)
      else
        let message = stringify (frame_of parse threadId payload)
        in if socket s = Some OPEN then (True, s\<lparr>sent := sent s @ [message]\<rparr>)
           else if socket s = Some CONNECTING
           then (True, s\<lparr>messageQueue := messageQueue s @ [message]\<rparr>)
           else (False, s))"

definition flushMessageQueue :: "ws_service \<Rightarrow> ws_service" where
  "flushMessageQueue s =
     (if messageQueue s = [] then s
      else
        let s1 = fold (\<lambda>msg t. if socket t = Some OPEN then t\<lparr>sent := sent t @ [msg]\<rparr> else t)
                   (messageQueue s) s
        in s1\<lparr>messageQueue := []\<rparr>)"

text \<open>
  The handlers \<open>onopen\<close> and \<open>onclose\<close> that \<open>_createWebSocket\<close> installs on every socket
  it creates. They act on the service, whichever socket the event belongs to.
\<close>

definition socket_onopen :: "ws_service \<Rightarrow> ws_service" where
  "socket_onopen s = flushMessageQueue s"

definition socket_onclose :: "ws_service \<Rightarrow> ws_service" where
  "socket_onclose s = s\<lparr>socket := None\<rparr>"

text \<open>
  \<open>_createWebSocket\<close> refuses only while the held socket is open or connecting; a held
  socket in another state is overwritten and stays behind with its handlers.
\<close>

definition createWebSocket :: "ws_service \<Rightarrow> ws_service" where
  "createWebSocket s =
     (if \<not> isLeader s then s
      else if socket s = Some OPEN \<or> socket s = Some CONNECTING then s
      else (case socket s of
              None \<Rightarrow> s
            | Some old \<Rightarrow> s\<lparr>detached := detached s @ [old]\<rparr>)\<lparr>socket := Some CONNECTING\<rparr>)"

text \<open>
  \<open>_closeWebSocket\<close> calls \<open>close()\<close>, which leaves the socket closing until its \<open>close\<close>
  event, and drops the reference at once.
\<close>

definition closeWebSocket :: "ws_service \<Rightarrow> ws_service" where
  "closeWebSocket s =
     (if \<not> isLeader s then s
      else (case socket s of
              None \<Rightarrow> s
            | Some old \<Rightarrow>
                s\<lparr>socket := None,
                  detached := detached s @ [if old = CLOSED then CLOSED else CLOSING]\<rparr>)
           \<lparr>messageQueue := []\<rparr>)"

text \<open>
  The events of the browser. For the socket the service holds: \<open>socket_opens\<close> when a
  connecting socket has reached \<open>OPEN\<close>, \<open>socket_closes\<close> when it has closed. For the
  socket at position \<open>i\<close> of \<open>detached\<close>: \<open>detached_opens\<close> and \<open>detached_closes\<close>, which
  run the same handlers; the \<open>onclose\<close> handler then drops whatever socket the service
  holds at that moment, and that socket joins \<open>detached\<close> in the state it is in.
\<close>

definition socket_opens :: "ws_service \<Rightarrow> ws_service" where
  "socket_opens s =
     (if socket s = Some CONNECTING then socket_onopen (s\<lparr>socket := Some OPEN\<rparr>) else s)"

definition socket_closes :: "ws_service \<Rightarrow> ws_service" where
  "socket_closes s = (if socket s \<noteq> None then socket_onclose s else s)"

definition detached_opens :: "nat \<Rightarrow> ws_service \<Rightarrow> ws_service" where
  "detached_opens i s =
     (if i < length (detached s) \<and> detached s ! i = CONNECTING
      then socket_onopen (s\<lparr>detached := (detached s)[i := OPEN]\<rparr>)
      else s)"

definition detached_closes :: "nat \<Rightarrow> ws_service \<Rightarrow> ws_service" where
  "detached_closes i s =
     (if i < length (detached s) \<and> detached s ! i \<noteq> CLOSED
      then (socket_onclose s)
             \<lparr>detached := (detached s)[i := CLOSED] @
                            (case socket s of None \<Rightarrow> [] | Some held \<Rightarrow> [held])\<rparr>
      else s)"

text \<open>The callbacks of the two timeouts, run when a pending timer fires.\<close>

definition connectTimer_fires :: "ws_service \<Rightarrow> ws_service" where
  "connectTimer_fires s = createWebSocket (s\<lparr>connectTimer := False\<rparr>)"

definition disconnectTimer_fires :: "ws_service \<Rightarrow> ws_service" where
  "disconnectTimer_fires s = closeWebSocket (s\<lparr>disconnectTimer := False\<rparr>)"

definition notifySubscribers :: "string \<Rightarrow> json \<Rightarrow> ws_service \<Rightarrow> ws_service" where
  "notifySubscribers threadId message s = s\<lparr>notified := notified s @ [(threadId, message)]\<rparr>"

definition handleBroadcast ::
  "payload_parse \<Rightarrow> frame_stringify \<Rightarrow> broadcast \<Rightarrow> ws_service \<Rightarrow> ws_service" where
  "handleBroadcast parse stringify event s =
     (case event of
        LEADER_ELECTED tabId' \<Rightarrow>
          if tabId' \<noteq> tabId s then resignAsLeader s else s
      | REGISTER_THREAD threadId originTabId \<Rightarrow>
          if isLeader s \<and> originTabId \<noteq> tabId s
          then scheduleConnect (s\<lparr>activeThreads := insert threadId (activeThreads s)\<rparr>)
          else s
      | UNREGISTER_THREAD threadId originTabId \<Rightarrow>
          if isLeader s \<and> originTabId \<noteq> tabId s
          then (let s1 = s\<lparr>activeThreads := activeThreads s - {threadId}\<rparr>
                in if activeThreads s1 = {} then scheduleDisconnect s1 else s1)
          else s
      | SEND_MESSAGE threadId message originTabId \<Rightarrow>
          if isLeader s \<and> originTabId \<noteq> tabId s
          then snd (sendViaWebSocket parse stringify threadId message s)
          else s
      | MESSAGE_RECEIVED threadId message originTabId \<Rightarrow>
          if originTabId \<noteq> tabId s then notifySubscribers threadId message s else s)"

subsection \<open>Public API\<close>

definition connectThread :: "string \<Rightarrow> ws_service \<Rightarrow> ws_service" where
  "connectThread threadId s =
     (let s1 = s\<lparr>activeThreads := insert threadId (activeThreads s)\<rparr>
      in if isLeader s1 then scheduleConnect s1
         else s1\<lparr>channel := channel s1 @ [REGISTER_THREAD threadId (tabId s1)]\<rparr>)"

definition sendMessage ::
  "payload_parse \<Rightarrow> frame_stringify \<Rightarrow> string \<Rightarrow> string \<Rightarrow> ws_service \<Rightarrow> bool \<times> ws_service" where
  "sendMessage parse stringify threadId text s =
     (if isLeader s then sendViaWebSocket parse stringify threadId text s
      else (True, s\<lparr>channel := channel s @ [SEND_MESSAGE threadId text (tabId s)]\<rparr>))"

definition disconnectThread :: "string \<Rightarrow> ws_service \<Rightarrow> ws_service" where
  "disconnectThread threadId s =
     (let s1 = s\<lparr>activeThreads := activeThreads s - {threadId}\<rparr>
      in if isLeader s1 then (if activeThreads s1 = {} then scheduleDisconnect s1 else s1)
         else s1\<lparr>channel := channel s1 @ [UNREGISTER_THREAD threadId (tabId s1)]\<rparr>)"

section \<open>ResponseCacheService\<close>

definition CACHE_KEY_PREFIX :: string where
  "CACHE_KEY_PREFIX = ''exim-ws-cache-''"

definition CACHE_EXPIRY_MS :: int where
  "CACHE_EXPIRY_MS = 24 * 60 * 60 * 1000"

text \<open>
  One element of a stored cache list, \<open>{response, cachedAt}\<close>. The response is opaque
  to the service.
\<close>

record 'r cache_entry =
  response :: 'r
  cachedAt :: int

text \<open>
  The parser of a stored cache list returns \<open>None\<close> where \<open>JSON.parse\<close> throws, and
  the list of entries otherwise: a stored text is either rejected by the parser or an
  array of entries as \<open>cacheResponse\<close> writes them.
\<close>

type_synonym 'r cache_parse = "string \<Rightarrow> 'r cache_entry list option"
type_synonym 'r cache_stringify = "'r cache_entry list \<Rightarrow> string"

definition getCacheKey :: "string \<Rightarrow> string" where
  "getCacheKey threadId = CACHE_KEY_PREFIX @ threadId"

definition cacheResponse ::
  "'r cache_parse \<Rightarrow> 'r cache_stringify \<Rightarrow> int \<Rightarrow> string \<Rightarrow> 'r
     \<Rightarrow> (string \<Rightarrow> string option) \<Rightarrow> (string \<Rightarrow> string option)" where
  "cacheResponse parse stringify now threadId resp store =
     (let cacheKey = getCacheKey threadId;
          cacheArray =
            (case store cacheKey of
               None \<Rightarrow> []
             | Some existingData \<Rightarrow>
                 if existingData = [] then []
                 else (case parse existingData of None \<Rightarrow> [] | Some parsed \<Rightarrow> parsed))
      in store(cacheKey \<mapsto> stringify (cacheArray @ [\<lparr>response = resp, cachedAt = now\<rparr>])))"

definition getAndClearCache ::
  "'r cache_parse \<Rightarrow> int \<Rightarrow> string \<Rightarrow> (string \<Rightarrow> string option)
     \<Rightarrow> 'r list \<times> (string \<Rightarrow> string option)" where
  "getAndClearCache parse now threadId store =
     (let cacheKey = getCacheKey threadId
      in case store cacheKey of
           None \<Rightarrow> ([], store)
         | Some cacheData \<Rightarrow>
             if cacheData = [] then ([], store)
             else (case parse cacheData of
                     None \<Rightarrow> ([], store)
                   | Some cacheArray \<Rightarrow>
                       (map response
                          (filter (\<lambda>item. now - cachedAt item < CACHE_EXPIRY_MS) cacheArray),
                        store(cacheKey := None))))"

definition hasPendingResponses ::
  "'r cache_parse \<Rightarrow> string \<Rightarrow> (string \<Rightarrow> string option) \<Rightarrow> bool" where
  "hasPendingResponses parse threadId store =
     (case store (getCacheKey threadId) of
        None \<Rightarrow> False
      | Some cacheData \<Rightarrow>
          if cacheData = [] then False
          else (case parse cacheData of
                  None \<Rightarrow> False
                | Some cacheArray \<Rightarrow> length cacheArray > 0))"

definition clearCache :: "string \<Rightarrow> (string \<Rightarrow> string option) \<Rightarrow> (string \<Rightarrow> string option)" where
  "clearCache threadId store = store(getCacheKey threadId := None)"

section \<open>useChatSessions\<close>

definition MAX_ACTIVE_SESSIONS :: nat where
  "MAX_ACTIVE_SESSIONS = 6"

text \<open>A chat message and an attached file are opaque to the session store.\<close>

typedecl message
typedecl attachment

record session =
  id' :: string
  messages :: "message list"
  inputValue :: string
  title :: string
  isThinking :: bool
  scrollPosition :: int
  lastAccessedAt :: int
  selectedFile :: "attachment option"

text \<open>The two pieces of state of the hook.\<close>

record chat_sessions =
  activeSessions :: "session list"
  activeSessionId :: string

text \<open>
  The initial state: one session, which is the active one. The identifier that
  \<open>uuidv1()\<close> returns and the value of \<open>Date.now()\<close> are arguments.
\<close>

definition initial_sessions :: "string \<Rightarrow> int \<Rightarrow> chat_sessions" where
  "initial_sessions uuid now =
     \<lparr>activeSessions =
        [\<lparr>id' = uuid, messages = [], inputValue = [], title = ''New Chat'', isThinking = False,
          scrollPosition = 0, lastAccessedAt = now, selectedFile = None\<rparr>],
      activeSessionId = uuid\<rparr>"

text \<open>The derived \<open>activeSession\<close>: the session found by id, or else the first one.\<close>

definition activeSession :: "chat_sessions \<Rightarrow> session option" where
  "activeSession st =
     (case find (\<lambda>s. id' s = activeSessionId st) (activeSessions st) of
        Some s \<Rightarrow> Some s
      | None \<Rightarrow> (case activeSessions st of [] \<Rightarrow> None | s # rest \<Rightarrow> Some s))"

text \<open>\<open>updateActiveSession(fields)\<close>; the function \<open>changes\<close> overwrites the given fields.\<close>

definition updateActiveSession :: "(session \<Rightarrow> session) \<Rightarrow> chat_sessions \<Rightarrow> chat_sessions" where
  "updateActiveSession changes st =
     st\<lparr>activeSessions :=
          map (\<lambda>s. if id' s = activeSessionId st then changes s else s) (activeSessions st)\<rparr>"

definition removeLRUSession :: "session list \<Rightarrow> string \<Rightarrow> session list" where
  "removeLRUSession sessions currentActiveId =
     (let sessionsExcludingActive = filter (\<lambda>s. id' s \<noteq> currentActiveId) sessions
      in case sessionsExcludingActive of
           [] \<Rightarrow> sessions
         | first # rest \<Rightarrow>
             let lruSession =
                   foldl (\<lambda>oldest session.
                            if lastAccessedAt session < lastAccessedAt oldest then session else oldest)
                     first sessionsExcludingActive
             in filter (\<lambda>s. id' s \<noteq> id' lruSession) sessions)"

definition handleNewChat :: "string \<Rightarrow> int \<Rightarrow> chat_sessions \<Rightarrow> chat_sessions" where
  "handleNewChat uuid now st =
     (let newSession =
            \<lparr>id' = uuid, messages = [], inputValue = [], title = ''New Chat'', isThinking = False,
             scrollPosition = 0, lastAccessedAt = now, selectedFile = None\<rparr>;
          prev = activeSessions st;
          updatedSessions =
            (if length prev \<ge> MAX_ACTIVE_SESSIONS then removeLRUSession prev (activeSessionId st)
             else prev)
      in st\<lparr>activeSessions := updatedSessions @ [newSession], activeSessionId := uuid\<rparr>)"

definition handleTabClick :: "string \<Rightarrow> int \<Rightarrow> chat_sessions \<Rightarrow> chat_sessions" where
  "handleTabClick i now st =
     (if activeSessionId st = i then st
      else st\<lparr>activeSessions :=
                map (\<lambda>s. if id' s = i then s\<lparr>lastAccessedAt := now\<rparr> else s) (activeSessions st),
              activeSessionId := i\<rparr>)"

text \<open>
  \<open>handleTabClose(id)\<close>; \<open>uuid\<close> is what \<open>uuidv1()\<close> returns for the reset. Reading the
  id of the last element of an empty \<open>newSessions\<close> throws a TypeError that the handler
  catches after the sessions were set.
\<close>

definition handleTabClose :: "string \<Rightarrow> string \<Rightarrow> chat_sessions \<Rightarrow> chat_sessions" where
  "handleTabClose i uuid st =
     (if length (activeSessions st) = 1
      then updateActiveSession
             (\<lambda>s. s\<lparr>messages := [], inputValue := [], title := ''New Chat'',
                    isThinking := False, id' := uuid\<rparr>) st
      else
        let newSessions = filter (\<lambda>s. id' s \<noteq> i) (activeSessions st);
            st1 = st\<lparr>activeSessions := newSessions\<rparr>
        in if activeSessionId st = i
           then (if newSessions = [] then st1
                 else st1\<lparr>activeSessionId := id' (last newSessions)\<rparr>)
           else st1)"

text \<open>
  \<open>handleLoadChat(threadId)\<close> up to the request for the messages; the empty string is
  the falsy \<open>threadId\<close>.
\<close>

definition handleLoadChat :: "string \<Rightarrow> int \<Rightarrow> chat_sessions \<Rightarrow> chat_sessions" where
  "handleLoadChat threadId now st =
     (if threadId = [] then st
      else (case find (\<lambda>s. id' s = threadId) (activeSessions st) of
              Some existingSession \<Rightarrow>
                st\<lparr>activeSessions :=
                     map (\<lambda>s. if id' s = threadId then s\<lparr>lastAccessedAt := now\<rparr> else s)
                       (activeSessions st),
                   activeSessionId := threadId\<rparr>
            | None \<Rightarrow>
                let newSession =
                      \<lparr>id' = threadId, messages = [], inputValue = [], title = ''Loading...'',
                       isThinking = True, scrollPosition = 0, lastAccessedAt = now,
                       selectedFile = None\<rparr>;
                    prev = activeSessions st;
                    updatedSessions =
                      (if length prev \<ge> MAX_ACTIVE_SESSIONS
                       then removeLRUSession prev (activeSessionId st)
                       else prev)
                in st\<lparr>activeSessions := updatedSessions @ [newSession],
                      activeSessionId := threadId\<rparr>))"

text \<open>
  The states of the hook that the four operations reach from the initial state, when
  every identifier \<open>uuidv1()\<close> hands to \<open>handleNewChat\<close> is new to the collection.
\<close>

inductive reachable :: "chat_sessions \<Rightarrow> bool" where
  initial: "reachable (initial_sessions uuid now)"
| newChat: "reachable st \<Longrightarrow> uuid \<notin> id' ` set (activeSessions st)
            \<Longrightarrow> reachable (handleNewChat uuid now st)"
| tabClick: "reachable st \<Longrightarrow> reachable (handleTabClick i now st)"
| tabClose: "reachable st \<Longrightarrow> reachable (handleTabClose i uuid st)"
| loadChat: "reachable st \<Longrightarrow> reachable (handleLoadChat threadId now st)"

section \<open>Values for the examples\<close>

text \<open>
  Values for the concrete examples: a session with a given id and access time, as
  \<open>handleNewChat\<close> creates one, and stand-ins for \<open>JSON.parse\<close> and \<open>JSON.stringify\<close>,
  a parser that accepts one text and rejects every other, a serialiser with a fixed
  output, a serialiser of frames that prints the \<open>threadId\<close> and the \<open>content\<close>, and
  a serialiser of cache lists that prints the responses.
\<close>

definition session_with :: "string \<Rightarrow> int \<Rightarrow> session" where
  "session_with i accessed =
     \<lparr>id' = i, messages = [], inputValue = [], title = ''New Chat'', isThinking = False,
      scrollPosition = 0, lastAccessedAt = accessed, selectedFile = None\<rparr>"

definition parse_only :: "string \<Rightarrow> 'a \<Rightarrow> string \<Rightarrow> 'a option" where
  "parse_only text v s = (if s = text then Some v else None)"

definition stringify_const :: "string \<Rightarrow> 'a \<Rightarrow> string" where
  "stringify_const text v = text"

definition frame_text :: "json \<Rightarrow> string" where
  "frame_text j =
     (case (field ''threadId'' j, field ''content'' j) of
        (Some (JStr t), Some (JStr c)) \<Rightarrow> t @ '':'' @ c
      | _ \<Rightarrow> ''?'')"

definition responses_text :: "string cache_entry list \<Rightarrow> string" where
  "responses_text entries = concat (map (\<lambda>item. ''<'' @ response item @ ''>'') entries)"

text \<open>
  States of the service for the examples. \<open>leader_tab\<close> is tab A after it won the election
  on an empty store. \<open>reopened_tab\<close>: it registered a thread, its first socket opened, the
  thread was unregistered and the disconnect timer closed the socket, then another thread
  was registered and the connect timer created a second socket. \<open>queued_tab\<close>: two sends
  arrived while the second socket was connecting. \<open>resigned_owner\<close>: tab A wrote a heartbeat
  at 2000 ms and then handled the \<open>LEADER_ELECTED\<close> broadcast of tab B.
\<close>

definition leader_tab :: ws_service where
  "leader_tab = becomeLeader (stringify_const ''rec'') 0 (initial_service ''tab_A'' Map.empty)"

definition reopened_tab :: ws_service where
  "reopened_tab =
     connectTimer_fires (connectThread ''t2''
       (disconnectTimer_fires (disconnectThread ''t1''
          (socket_opens (connectTimer_fires (connectThread ''t1'' leader_tab))))))"

definition queued_tab :: ws_service where
  "queued_tab =
     snd (sendMessage (parse_only ''{}'' (JObj [])) frame_text ''t2'' ''b''
       (snd (sendMessage (parse_only ''{}'' (JObj [])) frame_text ''t2'' ''a'' reopened_tab)))"

definition resigned_owner :: ws_service where
  "resigned_owner =
     handleBroadcast (parse_only ''{}'' (JObj [])) frame_text (LEADER_ELECTED ''tab_B'')
       (updateLeaderHeartbeat (stringify_const ''rec'') 2000 leader_tab)"

section \<open>Properties of the response cache\<close>

lemma cacheResponse_appends:
  assumes "store (getCacheKey threadId) = Some existingData"
    and "existingData \<noteq> []"
    and "parse existingData = Some cacheArray"
  shows "cacheResponse parse stringify now threadId resp store (getCacheKey threadId) =
           Some (stringify (cacheArray @ [\<lparr>response = resp, cachedAt = now\<rparr>]))"
  using assms by (simp add: cacheResponse_def Let_def)

lemma corrupt_cache_is_empty:
  assumes "store (getCacheKey threadId) = Some cacheData"
    and "cacheData \<noteq> []"
    and "parse cacheData = None"
  shows "getAndClearCache parse now threadId store = ([], store)"
    and "\<not> hasPendingResponses parse threadId store"
    and "cacheResponse parse stringify now threadId resp store (getCacheKey threadId) =
           Some (stringify [\<lparr>response = resp, cachedAt = now\<rparr>])"
  using assms
  by (simp_all add: getAndClearCache_def hasPendingResponses_def cacheResponse_def Let_def)

text \<open>
  C4. When the stored text of a conversation's cache parses to a list, \<open>getAndClearCache\<close>
  returns the responses of that list in the list's order, keeping exactly the entries
  younger than \<open>CACHE_EXPIRY_MS\<close> (an entry whose age is at least 24 hours is dropped),
  and it removes the key. A second call for the same id, at any later time, returns the
  empty list.
\<close>

theorem getAndClearCache_drains_in_order:
  assumes "store (getCacheKey threadId) = Some cacheData"
    and "cacheData \<noteq> []"
    and "parse cacheData = Some cacheArray"
  shows "fst (getAndClearCache parse now threadId store) =
           map response (filter (\<lambda>item. \<not> CACHE_EXPIRY_MS \<le> now - cachedAt item) cacheArray)
         \<and> snd (getAndClearCache parse now threadId store) (getCacheKey threadId) = None
         \<and> fst (getAndClearCache parse now' threadId
                  (snd (getAndClearCache parse now threadId store))) = []"
  using assms by (simp add: getAndClearCache_def Let_def not_le)

theorem getAndClearCache_drains_in_order_witness:
  "fst (getAndClearCache
          (parse_only ''[a,b,c,d]''
             [\<lparr>response = ''a'', cachedAt = 7\<rparr>, \<lparr>response = ''b'', cachedAt = 5\<rparr>,
              \<lparr>response = ''c'', cachedAt = 0\<rparr>, \<lparr>response = ''d'', cachedAt = 9\<rparr>])
          (CACHE_EXPIRY_MS + 5) ''t1''
          (Map.empty(getCacheKey ''t1'' \<mapsto> ''[a,b,c,d]''))) = [''a'', ''d'']
   \<and> fst (getAndClearCache
          (parse_only ''[a,b,c,d]''
             [\<lparr>response = ''a'', cachedAt = 7\<rparr>, \<lparr>response = ''b'', cachedAt = 5\<rparr>,
              \<lparr>response = ''c'', cachedAt = 0\<rparr>, \<lparr>response = ''d'', cachedAt = 9\<rparr>])
          (CACHE_EXPIRY_MS + 6) ''t1''
          (snd (getAndClearCache
             (parse_only ''[a,b,c,d]''
                [\<lparr>response = ''a'', cachedAt = 7\<rparr>, \<lparr>response = ''b'', cachedAt = 5\<rparr>,
                 \<lparr>response = ''c'', cachedAt = 0\<rparr>, \<lparr>response = ''d'', cachedAt = 9\<rparr>])
             (CACHE_EXPIRY_MS + 5) ''t1''
             (Map.empty(getCacheKey ''t1'' \<mapsto> ''[a,b,c,d]''))))) = []"
  using getAndClearCache_drains_in_order
    [of "Map.empty(getCacheKey ''t1'' \<mapsto> ''[a,b,c,d]'')" "''t1''" "''[a,b,c,d]''"
        "parse_only ''[a,b,c,d]''
           [\<lparr>response = ''a'', cachedAt = 7\<rparr>, \<lparr>response = ''b'', cachedAt = 5\<rparr>,
            \<lparr>response = ''c'', cachedAt = 0\<rparr>, \<lparr>response = ''d'', cachedAt = 9\<rparr>]"
        "[\<lparr>response = ''a'', cachedAt = 7\<rparr>, \<lparr>response = ''b'', cachedAt = 5\<rparr>,
          \<lparr>response = ''c'', cachedAt = 0\<rparr>, \<lparr>response = ''d'', cachedAt = 9\<rparr>]"
        "CACHE_EXPIRY_MS + 5" "CACHE_EXPIRY_MS + 6"]
  by (simp add: parse_only_def CACHE_EXPIRY_MS_def)

text \<open>
  C10. \<open>hasPendingResponses\<close> is true exactly when the key holds a non-empty text that
  parses to a non-empty list. It compares no timestamp: when every entry of such a list
  is at least \<open>CACHE_EXPIRY_MS\<close> old, \<open>hasPendingResponses\<close> is true and
  \<open>getAndClearCache\<close> returns the empty list.
\<close>

theorem hasPendingResponses_ignores_expiry:
  "(hasPendingResponses parse threadId store \<longleftrightarrow>
      (\<exists>cacheData cacheArray.
          store (getCacheKey threadId) = Some cacheData \<and> cacheData \<noteq> [] \<and>
          parse cacheData = Some cacheArray \<and> cacheArray \<noteq> []))
   \<and> (store (getCacheKey threadId) = Some cacheData \<and> cacheData \<noteq> [] \<and>
        parse cacheData = Some cacheArray \<and> cacheArray \<noteq> [] \<and>
        (\<forall>item \<in> set cacheArray. CACHE_EXPIRY_MS \<le> now - cachedAt item)
        \<longrightarrow> hasPendingResponses parse threadId store \<and>
            fst (getAndClearCache parse now threadId store) = [])"
proof (intro conjI impI)
  show "hasPendingResponses parse threadId store \<longleftrightarrow>
      (\<exists>cacheData cacheArray.
          store (getCacheKey threadId) = Some cacheData \<and> cacheData \<noteq> [] \<and>
          parse cacheData = Some cacheArray \<and> cacheArray \<noteq> [])"
    by (auto simp add: hasPendingResponses_def split: option.splits)
next
  assume stale: "store (getCacheKey threadId) = Some cacheData \<and> cacheData \<noteq> [] \<and>
        parse cacheData = Some cacheArray \<and> cacheArray \<noteq> [] \<and>
        (\<forall>item \<in> set cacheArray. CACHE_EXPIRY_MS \<le> now - cachedAt item)"
  then show "hasPendingResponses parse threadId store"
    by (simp add: hasPendingResponses_def)
  from stale have "filter (\<lambda>item. now - cachedAt item < CACHE_EXPIRY_MS) cacheArray = []"
    by (auto simp add: filter_empty_conv)
  with stale show "fst (getAndClearCache parse now threadId store) = []"
    by (simp add: getAndClearCache_def Let_def)
qed

theorem hasPendingResponses_ignores_expiry_witness:
  "hasPendingResponses
     (parse_only ''[old]'' [\<lparr>response = ''r'', cachedAt = 0\<rparr>]) ''t1''
     (Map.empty(getCacheKey ''t1'' \<mapsto> ''[old]''))
   \<and> fst (getAndClearCache
            (parse_only ''[old]'' [\<lparr>response = ''r'', cachedAt = 0\<rparr>]) CACHE_EXPIRY_MS ''t1''
            (Map.empty(getCacheKey ''t1'' \<mapsto> ''[old]''))) = []"
  using hasPendingResponses_ignores_expiry
    [of "parse_only ''[old]'' [\<lparr>response = ''r'', cachedAt = 0\<rparr>]" "''t1''"
        "Map.empty(getCacheKey ''t1'' \<mapsto> ''[old]'')" "''[old]''"
        "[\<lparr>response = ''r'', cachedAt = 0\<rparr>]" CACHE_EXPIRY_MS]
  by (simp add: parse_only_def)

section \<open>Properties of the shared connection\<close>

lemma fold_send_open:
  "socket t = Some OPEN \<Longrightarrow>
   fold (\<lambda>msg t. if socket t = Some OPEN then t\<lparr>sent := sent t @ [msg]\<rparr> else t) msgs t =
     t\<lparr>sent := sent t @ msgs\<rparr>"
  by (induction msgs arbitrary: t) simp_all

lemma flushMessageQueue_open:
  "socket s = Some OPEN \<Longrightarrow>
   flushMessageQueue s = s\<lparr>sent := sent s @ messageQueue s, messageQueue := []\<rparr>"
  by (simp add: flushMessageQueue_def fold_send_open)

lemma flushMessageQueue_empty: "messageQueue s = [] \<Longrightarrow> flushMessageQueue s = s"
  by (simp add: flushMessageQueue_def)

lemma sendViaWebSocket_connecting:
  "isLeader s \<Longrightarrow> socket s = Some CONNECTING \<Longrightarrow>
   sendViaWebSocket parse stringify threadId payload s =
     (True, s\<lparr>messageQueue := messageQueue s @ [stringify (frame_of parse threadId payload)]\<rparr>)"
  by (simp add: sendViaWebSocket_def)

lemma queue_all_connecting:
  "isLeader s \<Longrightarrow> socket s = Some CONNECTING \<Longrightarrow>
   fold (\<lambda>(threadId, payload) t. snd (sendViaWebSocket parse stringify threadId payload t)) sends s =
     s\<lparr>messageQueue := messageQueue s @
          map (\<lambda>(threadId, payload). stringify (frame_of parse threadId payload)) sends\<rparr>"
proof (induction sends arbitrary: s)
  case Nil
  then show ?case by simp
next
  case (Cons a sends)
  obtain threadId payload where a: "a = (threadId, payload)" by (cases a)
  let ?s1 = "s\<lparr>messageQueue := messageQueue s @ [stringify (frame_of parse threadId payload)]\<rparr>"
  have "isLeader ?s1" "socket ?s1 = Some CONNECTING" using Cons.prems by simp_all
  from Cons.IH [OF this] show ?case
    using Cons.prems by (simp add: a sendViaWebSocket_connecting)
qed

lemma activeThreads_scheduleConnect: "activeThreads (scheduleConnect s) = activeThreads s"
  by (simp add: scheduleConnect_def Let_def)

lemma isLeader_scheduleConnect: "isLeader (scheduleConnect s) = isLeader s"
  by (simp add: scheduleConnect_def Let_def)

lemma isLeader_becomeLeader: "isLeader (becomeLeader stringify now s)"
  by (simp add: becomeLeader_def Let_def updateLeaderHeartbeat_def isLeader_scheduleConnect)

text \<open>
  C1, as the claim states it, fails: a context that is not Leader and holds no socket
  gets \<open>true\<close> from \<open>sendMessage\<close>, not \<open>false\<close>.
\<close>

theorem sendMessage_follower_returns_true:
  "\<not> isLeader (initial_service ''tab_B'' Map.empty)
   \<and> socket (initial_service ''tab_B'' Map.empty) = None
   \<and> fst (sendMessage (parse_only ''{}'' (JObj [])) (stringify_const ''frame'') ''t1'' ''hello''
            (initial_service ''tab_B'' Map.empty)) = True"
  by (simp add: sendMessage_def initial_service_def)

text \<open>
  C1, amended. \<open>sendMessage\<close> has four outcomes and none of them is an exception. A
  Leader with an open socket hands the frame to the socket and returns \<open>true\<close>; a Leader
  with a connecting socket appends the frame to \<open>messageQueue\<close> and returns \<open>true\<close>; a
  Leader with no open or connecting socket changes nothing and returns \<open>false\<close>; a
  context that is not Leader posts a \<open>SEND_MESSAGE\<close> broadcast with the payload and its
  own tab id and returns \<open>true\<close>, whatever its socket is.
\<close>

theorem sendMessage_outcomes:
  "(isLeader s \<and> socket s = Some OPEN \<longrightarrow>
      sendMessage parse stringify threadId payload s =
        (True, s\<lparr>sent := sent s @ [stringify (frame_of parse threadId payload)]\<rparr>))
   \<and> (isLeader s \<and> socket s = Some CONNECTING \<longrightarrow>
      sendMessage parse stringify threadId payload s =
        (True, s\<lparr>messageQueue := messageQueue s @ [stringify (frame_of parse threadId payload)]\<rparr>))
   \<and> (isLeader s \<and> socket s \<noteq> Some OPEN \<and> socket s \<noteq> Some CONNECTING \<longrightarrow>
      sendMessage parse stringify threadId payload s = (False, s))
   \<and> (\<not> isLeader s \<longrightarrow>
      sendMessage parse stringify threadId payload s =
        (True, s\<lparr>channel := channel s @ [SEND_MESSAGE threadId payload (tabId s)]\<rparr>))"
  by (simp add: sendMessage_def sendViaWebSocket_def)

theorem sendMessage_outcomes_witness:
  "sendMessage (parse_only ''{}'' (JObj [])) (stringify_const ''frame'') ''t1'' ''{}''
     ((initial_service ''tab_A'' Map.empty)\<lparr>isLeader := True, socket := Some OPEN\<rparr>) =
     (True, (initial_service ''tab_A'' Map.empty)
               \<lparr>isLeader := True, socket := Some OPEN, sent := [''frame'']\<rparr>)
   \<and> sendMessage (parse_only ''{}'' (JObj [])) (stringify_const ''frame'') ''t1'' ''{}''
     ((initial_service ''tab_A'' Map.empty)\<lparr>isLeader := True, socket := Some CONNECTING\<rparr>) =
     (True, (initial_service ''tab_A'' Map.empty)
               \<lparr>isLeader := True, socket := Some CONNECTING, messageQueue := [''frame'']\<rparr>)
   \<and> sendMessage (parse_only ''{}'' (JObj [])) (stringify_const ''frame'') ''t1'' ''{}''
     ((initial_service ''tab_A'' Map.empty)\<lparr>isLeader := True\<rparr>) =
     (False, (initial_service ''tab_A'' Map.empty)\<lparr>isLeader := True\<rparr>)
   \<and> sendMessage (parse_only ''{}'' (JObj [])) (stringify_const ''frame'') ''t1'' ''{}''
     (initial_service ''tab_B'' Map.empty) =
     (True, (initial_service ''tab_B'' Map.empty)\<lparr>channel := [SEND_MESSAGE ''t1'' ''{}'' ''tab_B'']\<rparr>)"
  using
    sendMessage_outcomes [of "(initial_service ''tab_A'' Map.empty)\<lparr>isLeader := True, socket := Some OPEN\<rparr>"
      "parse_only ''{}'' (JObj [])" "stringify_const ''frame''" "''t1''" "''{}''"]
    sendMessage_outcomes [of "(initial_service ''tab_A'' Map.empty)\<lparr>isLeader := True, socket := Some CONNECTING\<rparr>"
      "parse_only ''{}'' (JObj [])" "stringify_const ''frame''" "''t1''" "''{}''"]
    sendMessage_outcomes [of "(initial_service ''tab_A'' Map.empty)\<lparr>isLeader := True\<rparr>"
      "parse_only ''{}'' (JObj [])" "stringify_const ''frame''" "''t1''" "''{}''"]
    sendMessage_outcomes [of "initial_service ''tab_B'' Map.empty"
      "parse_only ''{}'' (JObj [])" "stringify_const ''frame''" "''t1''" "''{}''"]
  by (simp add: initial_service_def stringify_const_def)

text \<open>
  C2, as the claim states it, fails: \<open>connectThread\<close> on a context that is not Leader
  adds the id to that context's own \<open>activeThreads\<close>.
\<close>

theorem connectThread_follower_adds_locally:
  "\<not> isLeader (initial_service ''tab_B'' Map.empty)
   \<and> activeThreads (initial_service ''tab_B'' Map.empty) = {}
   \<and> activeThreads (connectThread ''abc'' (initial_service ''tab_B'' Map.empty)) = {''abc''}"
  by (simp add: connectThread_def initial_service_def Let_def)

text \<open>
  C2, amended. \<open>connectThread\<close> on a context that is not Leader adds the id to the
  context's own \<open>activeThreads\<close> and posts a \<open>REGISTER_THREAD\<close> broadcast with its tab id.
  A Leader with another tab id that handles this broadcast adds the id to its own set; a
  context that is not Leader ignores the broadcast.
\<close>

theorem connectThread_follower_registers:
  assumes "\<not> isLeader s"
  shows "activeThreads (connectThread threadId s) = insert threadId (activeThreads s)
       \<and> channel (connectThread threadId s) = channel s @ [REGISTER_THREAD threadId (tabId s)]
       \<and> (isLeader l \<and> tabId l \<noteq> tabId s \<longrightarrow>
            activeThreads (handleBroadcast parse stringify (REGISTER_THREAD threadId (tabId s)) l) =
              insert threadId (activeThreads l))
       \<and> (\<not> isLeader f \<longrightarrow>
            handleBroadcast parse stringify (REGISTER_THREAD threadId (tabId s)) f = f)"
  using assms
  by (auto simp add: connectThread_def handleBroadcast_def Let_def activeThreads_scheduleConnect)

theorem connectThread_follower_registers_witness:
  "\<not> isLeader (initial_service ''tab_B'' Map.empty)
   \<and> activeThreads (connectThread ''abc'' (initial_service ''tab_B'' Map.empty)) =
       insert ''abc'' (activeThreads (initial_service ''tab_B'' Map.empty))
   \<and> channel (connectThread ''abc'' (initial_service ''tab_B'' Map.empty)) =
       [REGISTER_THREAD ''abc'' ''tab_B'']
   \<and> activeThreads
       (handleBroadcast (parse_only ''{}'' (JObj [])) (stringify_const ''frame'')
          (REGISTER_THREAD ''abc'' ''tab_B'')
          ((initial_service ''tab_A'' Map.empty)\<lparr>isLeader := True\<rparr>)) = {''abc''}
   \<and> handleBroadcast (parse_only ''{}'' (JObj [])) (stringify_const ''frame'')
        (REGISTER_THREAD ''abc'' ''tab_B'') (initial_service ''tab_C'' Map.empty) =
      initial_service ''tab_C'' Map.empty"
proof -
  have follower: "\<not> isLeader (initial_service ''tab_B'' Map.empty)"
    by (simp add: initial_service_def)
  show ?thesis
    using follower
      connectThread_follower_registers [OF follower, of "''abc''"
        "(initial_service ''tab_A'' Map.empty)\<lparr>isLeader := True\<rparr>"
        "parse_only ''{}'' (JObj [])" "stringify_const ''frame''"
        "initial_service ''tab_C'' Map.empty"]
    by (simp add: initial_service_def)
qed

text \<open>
  The undisturbed run. While a Leader's socket is connecting, every send appends its
  frame to \<open>messageQueue\<close> and transmits nothing. If the held socket then opens, with no
  other event in between, the handler transmits the whole queue in arrival order, after
  what was sent before, and empties it; a further flush changes nothing.
\<close>

lemma queued_sends_flush_once_in_order:
  assumes "isLeader s" and "socket s = Some CONNECTING"
  shows "let queued = fold (\<lambda>(threadId, payload) t.
                         snd (sendViaWebSocket parse stringify threadId payload t)) sends s;
             opened = socket_opens queued
         in messageQueue queued =
              messageQueue s @
              map (\<lambda>(threadId, payload). stringify (frame_of parse threadId payload)) sends
          \<and> sent queued = sent s
          \<and> sent opened = sent s @ messageQueue queued
          \<and> messageQueue opened = []
          \<and> socket opened = Some OPEN
          \<and> flushMessageQueue opened = opened"
  using assms
  by (simp add: Let_def queue_all_connecting socket_opens_def socket_onopen_def
      flushMessageQueue_open flushMessageQueue_empty)

lemma reopened_tab_fields:
  "isLeader reopened_tab" "socket reopened_tab = Some CONNECTING"
  "detached reopened_tab = [CLOSING]" "messageQueue reopened_tab = []" "sent reopened_tab = []"
  by (simp_all add: reopened_tab_def leader_tab_def connectTimer_fires_def
      disconnectTimer_fires_def createWebSocket_def closeWebSocket_def connectThread_def
      disconnectThread_def scheduleConnect_def scheduleDisconnect_def socket_opens_def
      socket_onopen_def flushMessageQueue_def becomeLeader_def updateLeaderHeartbeat_def
      initial_service_def Let_def)

lemma queued_tab_fields:
  "isLeader queued_tab" "socket queued_tab = Some CONNECTING"
  "detached queued_tab = [CLOSING]" "messageQueue queued_tab = [''t2:a'', ''t2:b'']"
  "sent queued_tab = []"
  using reopened_tab_fields
  by (simp_all add: queued_tab_def sendMessage_def sendViaWebSocket_def frame_of_def
      parse_only_def frame_text_def Let_def)

text \<open>
  C6 at a late close event. The Leader's second socket is connecting and the first,
  closed by \<open>_closeWebSocket\<close>, has not yet had its \<open>close\<close> event. Two sends return \<open>true\<close>
  and their frames are queued in order. The \<open>close\<close> event of the first socket then runs
  \<open>onclose\<close>, which sets \<open>this.socket\<close> to \<open>null\<close> although the service holds the second
  socket. When the second socket opens, the flush finds no socket, transmits nothing and
  empties the queue: the two queued frames are never transmitted.
\<close>

theorem stale_close_drops_queued_frames:
  "isLeader reopened_tab \<and> socket reopened_tab = Some CONNECTING
   \<and> detached reopened_tab = [CLOSING]
   \<and> fst (sendMessage (parse_only ''{}'' (JObj [])) frame_text ''t2'' ''a'' reopened_tab)
   \<and> fst (sendMessage (parse_only ''{}'' (JObj [])) frame_text ''t2'' ''b''
          (snd (sendMessage (parse_only ''{}'' (JObj [])) frame_text ''t2'' ''a'' reopened_tab)))
   \<and> messageQueue queued_tab = [''t2:a'', ''t2:b'']
   \<and> sent queued_tab = []
   \<and> socket (detached_closes 0 queued_tab) = None
   \<and> detached (detached_closes 0 queued_tab) = [CLOSED, CONNECTING]
   \<and> detached (detached_opens 1 (detached_closes 0 queued_tab)) = [CLOSED, OPEN]
   \<and> sent (detached_opens 1 (detached_closes 0 queued_tab)) = []
   \<and> messageQueue (detached_opens 1 (detached_closes 0 queued_tab)) = []"
  using reopened_tab_fields queued_tab_fields
  by (simp add: sendMessage_def sendViaWebSocket_def detached_closes_def detached_opens_def
      socket_onclose_def socket_onopen_def flushMessageQueue_def Let_def)

text \<open>
  C9. A Leader with an open socket transmits, and one with a connecting socket queues,
  exactly the serialisation of \<open>frame_of\<close>; in every other state nothing is transmitted
  or queued. The frame is an object whose \<open>threadId\<close> field is the \<open>threadId\<close> argument:
  for a payload that parses, every other field is the parsed payload's own and a
  \<open>threadId\<close> the payload carried is overwritten; for a payload that does not parse, the
  frame is \<open>{threadId, content: payload}\<close>.
\<close>

theorem sendViaWebSocket_frame_carries_threadId:
  "(isLeader s \<and> socket s = Some OPEN \<longrightarrow>
      sendViaWebSocket parse stringify threadId payload s =
        (True, s\<lparr>sent := sent s @ [stringify (frame_of parse threadId payload)]\<rparr>))
   \<and> (isLeader s \<and> socket s = Some CONNECTING \<longrightarrow>
      sendViaWebSocket parse stringify threadId payload s =
        (True, s\<lparr>messageQueue := messageQueue s @ [stringify (frame_of parse threadId payload)]\<rparr>))
   \<and> (\<not> isLeader s \<or> (socket s \<noteq> Some OPEN \<and> socket s \<noteq> Some CONNECTING) \<longrightarrow>
      sendViaWebSocket parse stringify threadId payload s = (False, s))
   \<and> (\<exists>props. frame_of parse threadId payload = JObj props)
   \<and> field ''threadId'' (frame_of parse threadId payload) = Some (JStr threadId)
   \<and> (\<forall>parsed name. parse payload = Some parsed \<and> name \<noteq> ''threadId'' \<longrightarrow>
         field name (frame_of parse threadId payload) = map_of (spread parsed) name)
   \<and> (parse payload = None \<longrightarrow>
         frame_of parse threadId payload =
           JObj [(''threadId'', JStr threadId), (''content'', JStr payload)])"
  by (auto simp add: sendViaWebSocket_def frame_of_def update_conv' split: option.splits)

theorem sendViaWebSocket_frame_carries_threadId_witness:
  "frame_of (parse_only ''p'' (JObj [(''content'', JStr ''hi''), (''threadId'', JStr ''old'')]))
      ''t1'' ''p'' =
     JObj [(''content'', JStr ''hi''), (''threadId'', JStr ''t1'')]
   \<and> frame_of (parse_only ''p'' (JObj [(''content'', JStr ''hi''), (''threadId'', JStr ''old'')]))
      ''t1'' ''plain'' =
     JObj [(''threadId'', JStr ''t1''), (''content'', JStr ''plain'')]
   \<and> sendViaWebSocket
       (parse_only ''p'' (JObj [(''content'', JStr ''hi''), (''threadId'', JStr ''old'')]))
       frame_text ''t1'' ''p''
       ((initial_service ''tab_A'' Map.empty)\<lparr>isLeader := True, socket := Some OPEN\<rparr>) =
     (True, (initial_service ''tab_A'' Map.empty)
               \<lparr>isLeader := True, socket := Some OPEN, sent := [''t1:hi'']\<rparr>)"
  using
    sendViaWebSocket_frame_carries_threadId
      [of "(initial_service ''tab_A'' Map.empty)\<lparr>isLeader := True, socket := Some OPEN\<rparr>"
          "parse_only ''p'' (JObj [(''content'', JStr ''hi''), (''threadId'', JStr ''old'')])"
          frame_text "''t1''" "''p''"]
    sendViaWebSocket_frame_carries_threadId
      [of "(initial_service ''tab_A'' Map.empty)\<lparr>isLeader := True, socket := Some OPEN\<rparr>"
          "parse_only ''p'' (JObj [(''content'', JStr ''hi''), (''threadId'', JStr ''old'')])"
          frame_text "''t1''" "''plain''"]
  by (simp add: initial_service_def frame_of_def parse_only_def frame_text_def)

section \<open>Properties of the election\<close>

text \<open>
  The cases of the \<open>visibilitychange\<close> handler on a context that is not Leader.
\<close>

lemma visible_follower_election:
  assumes "\<not> isLeader s"
  shows "(localStorage s LEADER_KEY = None \<or> localStorage s LEADER_KEY = Some [] \<longrightarrow>
            handleVisibilityChange parse stringify now False s = Inr (becomeLeader stringify now s))
       \<and> (\<forall>leaderData owner timestamp.
            localStorage s LEADER_KEY = Some leaderData \<and> leaderData \<noteq> [] \<and>
            parse leaderData = Some (owner, timestamp) \<longrightarrow>
            handleVisibilityChange parse stringify now False s =
              Inr (if now - timestamp > 3000 \<and> owner \<noteq> tabId s
                   then becomeLeader stringify now s else s))
       \<and> isLeader (becomeLeader stringify now s)
       \<and> handleVisibilityChange parse stringify now True s = Inr s"
  using assms
  by (auto simp add: handleVisibilityChange_def attemptAggressiveLeaderElection_def
      VISIBILITY_FAILOVER_MS_def isLeader_becomeLeader)

text \<open>
  C7 at a stale record of the context's own. Tab A was Leader, wrote its heartbeat at
  2000 ms and resigned on the \<open>LEADER_ELECTED\<close> broadcast of tab B, so the record still
  names A. When A becomes visible at 10000 ms the record is 8000 ms old, more than
  \<open>VISIBILITY_FAILOVER_MS\<close>, and the handler leaves A a Follower, whereas
  \<open>_attemptLeaderElection\<close> in the same state makes A the Leader.
\<close>

theorem visible_stale_own_record_no_leader:
  "\<not> isLeader resigned_owner
   \<and> tabId resigned_owner = ''tab_A''
   \<and> localStorage resigned_owner LEADER_KEY = Some ''rec''
   \<and> parse_only ''rec'' (''tab_A'', 2000::int) ''rec'' = Some (''tab_A'', 2000)
   \<and> 10000 - (2000::int) > VISIBILITY_FAILOVER_MS
   \<and> handleVisibilityChange (parse_only ''rec'' (''tab_A'', 2000)) (stringify_const ''rec'')
        10000 False resigned_owner = Inr resigned_owner
   \<and> attemptLeaderElection (parse_only ''rec'' (''tab_A'', 2000)) (stringify_const ''rec'')
        10000 resigned_owner = Inr (becomeLeader (stringify_const ''rec'') 10000 resigned_owner)
   \<and> isLeader (becomeLeader (stringify_const ''rec'') 10000 resigned_owner)"
proof -
  have fields: "\<not> isLeader resigned_owner" "tabId resigned_owner = ''tab_A''"
    "localStorage resigned_owner LEADER_KEY = Some ''rec''"
    by (simp_all add: resigned_owner_def leader_tab_def handleBroadcast_def resignAsLeader_def
        updateLeaderHeartbeat_def becomeLeader_def initial_service_def stringify_const_def
        Let_def)
  have parsed: "parse_only ''rec'' (''tab_A'', 2000::int) ''rec'' = Some (''tab_A'', 2000)"
    by (simp add: parse_only_def)
  show ?thesis
    using fields parsed
    by (simp add: handleVisibilityChange_def attemptAggressiveLeaderElection_def
        attemptLeaderElection_def VISIBILITY_FAILOVER_MS_def LEADER_TIMEOUT_def
        isLeader_becomeLeader)
qed

lemma corrupt_record_escapes:
  assumes "localStorage s LEADER_KEY = Some leaderData"
    and "leaderData \<noteq> []"
    and "parse leaderData = None"
  shows "attemptLeaderElection parse stringify now s = Inl SyntaxError"
    and "attemptAggressiveLeaderElection parse stringify now s = Inl SyntaxError"
  using assms
  by (simp_all add: attemptLeaderElection_def attemptAggressiveLeaderElection_def)

lemma corrupt_newValue_escapes:
  assumes "newValue \<noteq> []" and "parse newValue = None"
  shows "handleStorageChange parse stringify now (Some LEADER_KEY) (Some newValue) s =
           Inl SyntaxError"
  using assms by (simp add: handleStorageChange_def)

text \<open>
  C3 at a corrupt ownership record. With a stored record that \<open>JSON.parse\<close> rejects, the
  constructor's election and the storage-change handler end in a SyntaxError, whereas
  \<open>getAndClearCache\<close> on a corrupt cache list returns the empty list and the next
  \<open>cacheResponse\<close> overwrites the corrupt text with a list of one entry.
\<close>

theorem corrupt_ownership_record_throws:
  "construct (parse_only ''rec'' (''tab_A'', 0)) (stringify_const ''rec'') 1000 ''tab_B''
     (Map.empty(LEADER_KEY \<mapsto> ''{corrupt'')) = Inl SyntaxError
   \<and> handleStorageChange (parse_only ''rec'' (''tab_A'', 0)) (stringify_const ''rec'') 1000
       (Some LEADER_KEY) (Some ''{corrupt'') (initial_service ''tab_B'' Map.empty) = Inl SyntaxError
   \<and> getAndClearCache (parse_only ''[r]'' [\<lparr>response = ''r'', cachedAt = 0\<rparr>]) 1000 ''t1''
       (Map.empty(getCacheKey ''t1'' \<mapsto> ''{corrupt'')) =
       ([], Map.empty(getCacheKey ''t1'' \<mapsto> ''{corrupt''))
   \<and> cacheResponse (parse_only ''[r]'' [\<lparr>response = ''r'', cachedAt = 0\<rparr>]) responses_text
       1000 ''t1'' ''x'' (Map.empty(getCacheKey ''t1'' \<mapsto> ''{corrupt'')) (getCacheKey ''t1'') =
       Some ''<x>''"
  by (simp add: construct_def attemptLeaderElection_def handleStorageChange_def
      initial_service_def parse_only_def getAndClearCache_def cacheResponse_def LEADER_KEY_def
      responses_text_def)

section \<open>Properties of the session store\<close>

lemma foldl_oldest:
  "foldl (\<lambda>oldest session.
            if lastAccessedAt session < lastAccessedAt oldest then session else oldest) a xs
     \<in> insert a (set xs)
   \<and> lastAccessedAt (foldl (\<lambda>oldest session.
            if lastAccessedAt session < lastAccessedAt oldest then session else oldest) a xs)
       \<le> lastAccessedAt a
   \<and> (\<forall>x \<in> set xs. lastAccessedAt (foldl (\<lambda>oldest session.
            if lastAccessedAt session < lastAccessedAt oldest then session else oldest) a xs)
       \<le> lastAccessedAt x)"
proof (induction xs arbitrary: a)
  case Nil
  then show ?case by simp
next
  case (Cons x xs)
  show ?case
    using Cons.IH [of x] Cons.IH [of a] by (cases "lastAccessedAt x < lastAccessedAt a") auto
qed

lemma filter_id_remove1:
  "distinct (map id' xs) \<Longrightarrow> x \<in> set xs \<Longrightarrow> filter (\<lambda>s. id' s \<noteq> id' x) xs = remove1 x xs"
proof (induction xs)
  case Nil
  then show ?case by simp
next
  case (Cons y ys)
  show ?case
  proof (cases "y = x")
    case True
    with Cons.prems have "id' x \<notin> id' ` set ys" by simp
    then have "\<forall>s \<in> set ys. id' s \<noteq> id' x" by (metis imageI)
    then have "filter (\<lambda>s. id' s \<noteq> id' x) ys = ys" by (simp add: filter_id_conv)
    with True show ?thesis by simp
  next
    case False
    with Cons.prems have "x \<in> set ys" "id' y \<noteq> id' x" by auto
    with Cons False show ?thesis by auto
  qed
qed

lemma some_session_not_active:
  assumes "distinct (map id' xs)" and "2 \<le> length xs"
  shows "filter (\<lambda>s. id' s \<noteq> a) xs \<noteq> []"
proof (cases xs)
  case Nil
  with assms show ?thesis by simp
next
  case (Cons x ys)
  with assms obtain y zs where ys: "ys = y # zs" by (cases ys) auto
  with Cons assms have "id' x \<noteq> id' y" by auto
  then have "id' x \<noteq> a \<or> id' y \<noteq> a" by auto
  with Cons ys show ?thesis by auto
qed

lemma removeLRUSession_removes_oldest:
  assumes "distinct (map id' sessions)" and "2 \<le> length sessions"
  shows "\<exists>lru. lru \<in> set sessions \<and> id' lru \<noteq> a
          \<and> (\<forall>s \<in> set sessions. id' s \<noteq> a \<longrightarrow> lastAccessedAt lru \<le> lastAccessedAt s)
          \<and> removeLRUSession sessions a = remove1 lru sessions"
proof -
  let ?others = "filter (\<lambda>s. id' s \<noteq> a) sessions"
  let ?pick = "\<lambda>oldest session.
            if lastAccessedAt session < lastAccessedAt oldest then session else oldest"
  from some_session_not_active [OF assms] obtain first rest where others: "?others = first # rest"
    by (cases ?others) auto
  let ?lru = "foldl ?pick first ?others"
  have first: "first \<in> set ?others" by (simp add: others)
  from foldl_oldest [of first ?others] first
  have mem: "?lru \<in> set ?others"
    and least: "\<forall>x \<in> set ?others. lastAccessedAt ?lru \<le> lastAccessedAt x"
    by (auto simp add: insert_absorb)
  from mem have in_sessions: "?lru \<in> set sessions" and not_active: "id' ?lru \<noteq> a" by auto
  have "removeLRUSession sessions a = filter (\<lambda>s. id' s \<noteq> id' ?lru) sessions"
    using others by (simp add: removeLRUSession_def Let_def)
  also have "\<dots> = remove1 ?lru sessions"
    by (rule filter_id_remove1 [OF assms(1) in_sessions])
  finally have "removeLRUSession sessions a = remove1 ?lru sessions" .
  moreover from least have "\<forall>s \<in> set sessions. id' s \<noteq> a \<longrightarrow> lastAccessedAt ?lru \<le> lastAccessedAt s"
    by auto
  ultimately show ?thesis using in_sessions not_active by blast
qed

text \<open>
  C5. With \<open>MAX_ACTIVE_SESSIONS = 6\<close> sessions of distinct ids in the collection,
  \<open>handleNewChat\<close> removes exactly one session, one that is not the active session and
  whose \<open>lastAccessedAt\<close> is least among the sessions other than the active one, appends
  the new session and makes it the active one; the collection has 6 sessions afterwards.
\<close>

theorem handleNewChat_at_capacity:
  assumes "length (activeSessions st) = MAX_ACTIVE_SESSIONS"
    and "distinct (map id' (activeSessions st))"
  shows "\<exists>lru. lru \<in> set (activeSessions st) \<and> id' lru \<noteq> activeSessionId st
          \<and> (\<forall>s \<in> set (activeSessions st).
                id' s \<noteq> activeSessionId st \<longrightarrow> lastAccessedAt lru \<le> lastAccessedAt s)
          \<and> activeSessions (handleNewChat uuid now st) =
               remove1 lru (activeSessions st) @
               [\<lparr>id' = uuid, messages = [], inputValue = [], title = ''New Chat'',
                 isThinking = False, scrollPosition = 0, lastAccessedAt = now,
                 selectedFile = None\<rparr>]
          \<and> activeSessionId (handleNewChat uuid now st) = uuid
          \<and> length (activeSessions (handleNewChat uuid now st)) = 6"
proof -
  from assms(1) have len: "length (activeSessions st) = 6" by (simp add: MAX_ACTIVE_SESSIONS_def)
  then have "2 \<le> length (activeSessions st)" by simp
  from removeLRUSession_removes_oldest [OF assms(2) this, of "activeSessionId st"]
  obtain lru where lru: "lru \<in> set (activeSessions st)" "id' lru \<noteq> activeSessionId st"
      "\<forall>s \<in> set (activeSessions st). id' s \<noteq> activeSessionId st \<longrightarrow> lastAccessedAt lru \<le> lastAccessedAt s"
      "removeLRUSession (activeSessions st) (activeSessionId st) = remove1 lru (activeSessions st)"
    by blast
  have "length (remove1 lru (activeSessions st)) = 5"
    using lru(1) len by (simp add: length_remove1)
  with lru len show ?thesis
    by (intro exI [of _ lru]) (simp add: handleNewChat_def Let_def MAX_ACTIVE_SESSIONS_def)
qed

theorem handleNewChat_at_capacity_witness:
  "map id' (activeSessions (handleNewChat ''s7'' 100
      \<lparr>activeSessions = [session_with ''s1'' 10, session_with ''s2'' 3, session_with ''s3'' 8,
                         session_with ''s4'' 5, session_with ''s5'' 20, session_with ''s6'' 5],
       activeSessionId = ''s2''\<rparr>)) = [''s1'', ''s2'', ''s3'', ''s5'', ''s6'', ''s7'']
   \<and> activeSessionId (handleNewChat ''s7'' 100
      \<lparr>activeSessions = [session_with ''s1'' 10, session_with ''s2'' 3, session_with ''s3'' 8,
                         session_with ''s4'' 5, session_with ''s5'' 20, session_with ''s6'' 5],
       activeSessionId = ''s2''\<rparr>) = ''s7''"
  using handleNewChat_at_capacity [of
      "\<lparr>activeSessions = [session_with ''s1'' 10, session_with ''s2'' 3, session_with ''s3'' 8,
                         session_with ''s4'' 5, session_with ''s5'' 20, session_with ''s6'' 5],
       activeSessionId = ''s2''\<rparr>" "''s7''" 100]
  by (simp add: handleNewChat_def removeLRUSession_def session_with_def MAX_ACTIVE_SESSIONS_def Let_def)


lemma touch_ids:
  "id' \<circ> (\<lambda>s. if id' s = i then s\<lparr>lastAccessedAt := now\<rparr> else s) = id'"
  by (rule ext) simp

lemma filter_other_ids:
  assumes "distinct (map id' xs)"
  shows "distinct (map id' (filter (\<lambda>s. id' s \<noteq> i) xs))
       \<and> length xs \<le> Suc (length (filter (\<lambda>s. id' s \<noteq> i) xs))"
proof
  show "distinct (map id' (filter (\<lambda>s. id' s \<noteq> i) xs))"
    using assms by (simp add: distinct_map_filter)
  show "length xs \<le> Suc (length (filter (\<lambda>s. id' s \<noteq> i) xs))"
  proof (cases "\<exists>x \<in> set xs. id' x = i")
    case True
    then obtain x where x: "x \<in> set xs" "id' x = i" by blast
    from filter_id_remove1 [OF assms x(1)] x(2)
    have "filter (\<lambda>s. id' s \<noteq> i) xs = remove1 x xs" by simp
    with x(1) show ?thesis by (simp add: length_remove1)
  next
    case False
    then have "filter (\<lambda>s. id' s \<noteq> i) xs = xs" by (simp add: filter_id_conv)
    then show ?thesis by simp
  qed
qed

lemma removeLRUSession_ids:
  "distinct (map id' xs) \<Longrightarrow> distinct (map id' (removeLRUSession xs a))"
  "set (removeLRUSession xs a) \<subseteq> set xs"
  by (auto simp add: removeLRUSession_def Let_def distinct_map_filter split: list.splits)

lemma add_session_bounded:
  assumes "1 \<le> length prev" and "length prev \<le> 6" and "distinct (map id' prev)"
    and "i \<notin> id' ` set prev" and "id' new = i"
    and "updated = (if length prev \<ge> MAX_ACTIVE_SESSIONS then removeLRUSession prev a else prev)"
  shows "1 \<le> length (updated @ [new]) \<and> length (updated @ [new]) \<le> 6
       \<and> distinct (map id' (updated @ [new]))"
proof (cases "length prev \<ge> MAX_ACTIVE_SESSIONS")
  case True
  with assms(2) have len: "length prev = 6" by (simp add: MAX_ACTIVE_SESSIONS_def)
  then have "2 \<le> length prev" by simp
  from removeLRUSession_removes_oldest [OF assms(3) this, of a]
  obtain lru where lru: "lru \<in> set prev" "removeLRUSession prev a = remove1 lru prev" by blast
  from True have upd: "updated = removeLRUSession prev a" by (simp add: assms(6))
  have "set updated \<subseteq> set prev" unfolding upd by (rule removeLRUSession_ids)
  with assms(4) have "i \<notin> id' ` set updated" by blast
  moreover have "distinct (map id' updated)"
    unfolding upd using assms(3) by (rule removeLRUSession_ids)
  moreover have "length updated = 5"
    using lru len by (simp add: upd length_remove1)
  ultimately show ?thesis using assms(5) by simp
next
  case False
  then have "updated = prev" by (simp add: assms(6))
  with False assms show ?thesis by (simp add: MAX_ACTIVE_SESSIONS_def)
qed

text \<open>
  The size of the collection stays between 1 and 6 and the ids stay distinct in every
  reachable state.
\<close>

lemma reachable_bounded:
  assumes "reachable st"
  shows "1 \<le> length (activeSessions st) \<and> length (activeSessions st) \<le> 6
       \<and> distinct (map id' (activeSessions st))"
  using assms
proof (induction rule: reachable.induct)
  case (initial uuid now)
  show ?case by (simp add: initial_sessions_def)
next
  case (newChat st uuid now)
  let ?new = "\<lparr>id' = uuid, messages = [], inputValue = [], title = ''New Chat'',
                isThinking = False, scrollPosition = 0, lastAccessedAt = now,
                selectedFile = None\<rparr>"
  let ?updated = "if length (activeSessions st) \<ge> MAX_ACTIVE_SESSIONS
                  then removeLRUSession (activeSessions st) (activeSessionId st)
                  else activeSessions st"
  have eq: "activeSessions (handleNewChat uuid now st) = ?updated @ [?new]"
    by (simp add: handleNewChat_def Let_def)
  have "1 \<le> length (?updated @ [?new]) \<and> length (?updated @ [?new]) \<le> 6
       \<and> distinct (map id' (?updated @ [?new]))"
    using newChat by (intro add_session_bounded [where i = uuid and a = "activeSessionId st"]) simp_all
  then show ?case unfolding eq .
next
  case (tabClick st i now)
  then show ?case by (simp add: handleTabClick_def touch_ids)
next
  case (tabClose st i uuid)
  show ?case
  proof (cases "length (activeSessions st) = 1")
    case True
    then obtain x where "activeSessions st = [x]" by (cases "activeSessions st") auto
    then show ?thesis by (simp add: handleTabClose_def updateActiveSession_def)
  next
    case False
    let ?newSessions = "filter (\<lambda>s. id' s \<noteq> i) (activeSessions st)"
    from False tabClose.IH have "2 \<le> length (activeSessions st)" by simp
    moreover from filter_other_ids [of "activeSessions st" i] tabClose.IH
    have ids: "distinct (map id' ?newSessions)"
      and "length (activeSessions st) \<le> Suc (length ?newSessions)"
      by simp_all
    ultimately have lower: "1 \<le> length ?newSessions" by linarith
    have "length ?newSessions \<le> length (activeSessions st)" by (rule length_filter_le)
    with tabClose.IH have upper: "length ?newSessions \<le> 6" by linarith
    have eq: "activeSessions (handleTabClose i uuid st) = ?newSessions"
      using False by (simp add: handleTabClose_def Let_def)
    show ?thesis unfolding eq using lower upper ids by blast
  qed
next
  case (loadChat st threadId now)
  show ?case
  proof (cases "threadId = []")
    case True
    with loadChat.IH show ?thesis by (simp add: handleLoadChat_def)
  next
    case False
    show ?thesis
    proof (cases "find (\<lambda>s. id' s = threadId) (activeSessions st)")
      case None
      let ?new = "\<lparr>id' = threadId, messages = [], inputValue = [], title = ''Loading...'',
                    isThinking = True, scrollPosition = 0, lastAccessedAt = now,
                    selectedFile = None\<rparr>"
      let ?updated = "if length (activeSessions st) \<ge> MAX_ACTIVE_SESSIONS
                      then removeLRUSession (activeSessions st) (activeSessionId st)
                      else activeSessions st"
      from None have fresh: "threadId \<notin> id' ` set (activeSessions st)"
        by (auto simp add: find_None_iff)
      have eq: "activeSessions (handleLoadChat threadId now st) = ?updated @ [?new]"
        using None False by (simp add: handleLoadChat_def Let_def)
      have "1 \<le> length (?updated @ [?new]) \<and> length (?updated @ [?new]) \<le> 6
           \<and> distinct (map id' (?updated @ [?new]))"
        using loadChat.IH fresh
        by (intro add_session_bounded [where i = threadId and a = "activeSessionId st"]) simp_all
      then show ?thesis unfolding eq .
    next
      case (Some existingSession)
      with loadChat.IH False show ?thesis by (simp add: handleLoadChat_def touch_ids)
    qed
  qed
qed

text \<open>
  C8 at the closing of the only session. From the initial state, \<open>handleTabClose\<close> resets
  the session in place under a new id and leaves \<open>activeSessionId\<close> at the old id, which
  no session of the collection has any more.
\<close>

theorem close_last_session_dangling_active_id:
  "reachable (handleTabClose ''s1'' ''s2'' (initial_sessions ''s1'' 0))
   \<and> map id' (activeSessions (handleTabClose ''s1'' ''s2'' (initial_sessions ''s1'' 0))) = [''s2'']
   \<and> activeSessionId (handleTabClose ''s1'' ''s2'' (initial_sessions ''s1'' 0)) = ''s1''
   \<and> find (\<lambda>s. id' s = activeSessionId (handleTabClose ''s1'' ''s2'' (initial_sessions ''s1'' 0)))
        (activeSessions (handleTabClose ''s1'' ''s2'' (initial_sessions ''s1'' 0))) = None"
  by (simp add: reachable.tabClose reachable.initial)
     (simp add: handleTabClose_def updateActiveSession_def initial_sessions_def)

end
